theory Spec2Isabelle
  imports Main
begin

section \<open>DateRangeInput: the text/date reconciliation of \<open>dateRangeInput.tsx\<close>\<close>

text \<open>
  The component keeps, for each of its two text fields, a moment value, the text being
  typed and a focus flag, plus the open flag of the popover. Its handlers call
  \<open>setState\<close> once; here each handler is a function from the state before to the state
  after, paired with the list of callbacks of the embedder it invoked.
\<close>

subsection \<open>JavaScript dates and moments\<close>

text \<open>
  A JavaScript \<open>Date\<close> holds a time value in milliseconds or is the invalid date
  (\<open>new Date(undefined)\<close>).
\<close>

datatype jsDate = InvalidDate | Date int

text \<open>
  The seven local-time fields that the getters of a \<open>Date\<close> (\<open>getFullYear()\<close>,
  \<open>getMonth()\<close>, ...) and the accessors of a moment (\<open>year()\<close>, \<open>month()\<close>, ...)
  read, months counted from 0. Where the fields are wrapped in an option, \<open>None\<close>
  stands for the seven \<open>NaN\<close> of an invalid date or moment.
\<close>

record fields =
  year :: int
  month :: int
  date :: int
  hours :: int
  minutes :: int
  seconds :: int
  milliseconds :: int

text \<open>
  What a slot of a \<open>DateRange\<close> prop or of a picked range holds besides \<open>null\<close>: a
  \<open>Date\<close> object by its type, a string at run time (\<open>fromDateToMoment\<close> tests for
  it).
\<close>

datatype dateArg = DateObject jsDate | DateText string

text \<open>
  A moment is valid and holds an instant, or it is invalid; the invalid moment made
  by \<open>moment(null)\<close> carries the parsing flag \<open>nullInput\<close>, the one made from a
  text that does not parse does not.
\<close>

datatype moment = NullInput | Invalid | Valid int

fun isValid :: "moment \<Rightarrow> bool" where
  "isValid (Valid t) = True"
| "isValid NullInput = False"
| "isValid Invalid = False"

fun nullInput :: "moment \<Rightarrow> bool" where
  "nullInput NullInput = True"
| "nullInput Invalid = False"
| "nullInput (Valid t) = False"

text \<open>
  The moment library is not part of the repository; what the component calls of it is
  a parameter of the model: the parser behind \<open>moment(text, format)\<close> (\<open>None\<close> when
  the text does not parse), \<open>m.format(format)\<close>,
  \<open>m.isBetween(from, to, units, inclusivity)\<close>, \<open>moment(string)\<close>,
  \<open>moment([year, month, ...])\<close> and the seven accessors of a moment. So are the two
  built-ins of the \<open>Date\<close> object the component relies on, which depend on the time
  zone of the host: the local fields of a time value, and the time value (or the
  invalid date) that \<open>MakeDay\<close>, \<open>MakeTime\<close> and \<open>UTC\<close> build from local fields.
\<close>

record momentLib =
  parseText :: "string \<Rightarrow> string \<Rightarrow> int option"
  formatMoment :: "moment \<Rightarrow> string \<Rightarrow> string"
  isBetween :: "moment \<Rightarrow> jsDate \<Rightarrow> jsDate \<Rightarrow> string \<Rightarrow> string \<Rightarrow> bool"
  momentOfString :: "string \<Rightarrow> moment"
  momentOfArray :: "fields option \<Rightarrow> moment"
  momentFields :: "moment \<Rightarrow> fields option"
  localFields :: "int \<Rightarrow> fields"
  makeDate :: "fields \<Rightarrow> jsDate"

text \<open>
  \<open>moment(input, format)\<close>: a \<open>null\<close> input gives the null-input moment, a string
  gives the parsed instant or an invalid moment.
\<close>

definition momentOf :: "momentLib \<Rightarrow> string option \<Rightarrow> string \<Rightarrow> moment" where
  "momentOf lib input fmt =
     (case input of
        None \<Rightarrow> NullInput
      | Some text \<Rightarrow>
          (case parseText lib text fmt of None \<Rightarrow> Invalid | Some t \<Rightarrow> Valid t))"

subsection \<open>Props and state\<close>

type_synonym dateRange = "jsDate option \<times> jsDate option"

type_synonym dateRangeArg = "dateArg option \<times> dateArg option"

record props =
  defaultValue :: "dateRangeArg option"
  format :: string
  invalidDateMessage :: string
  maxDate :: jsDate
  minDate :: jsDate
  openOnFocus :: bool
  outOfRangeMessage :: string
  valueProp :: "dateRangeArg option"

text \<open>
  \<open>IDateRangeInputState\<close>. A moment field is \<open>None\<close> when it holds \<open>null\<close>, and so
  is a string field.
\<close>

record state =
  isOpen :: bool
  isStartDateInputFocused :: bool
  startDateValue :: "moment option"
  startDateValueString :: "string option"
  isEndDateInputFocused :: bool
  endDateValue :: "moment option"
  endDateValueString :: "string option"

text \<open>
  The handlers choose the fields they write by key (\<open>"startDateValue"\<close>,
  \<open>"endDateValueString"\<close>, ...), three keys passed one by one.
\<close>

datatype valueKey = Key_startDateValue | Key_endDateValue

datatype valueStringKey = Key_startDateValueString | Key_endDateValueString

datatype focusKey = Key_isStartDateInputFocused | Key_isEndDateInputFocused

fun setValue :: "valueKey \<Rightarrow> moment option \<Rightarrow> state \<Rightarrow> state" where
  "setValue Key_startDateValue v s = s\<lparr>startDateValue := v\<rparr>"
| "setValue Key_endDateValue v s = s\<lparr>endDateValue := v\<rparr>"

fun setValueString :: "valueStringKey \<Rightarrow> string option \<Rightarrow> state \<Rightarrow> state" where
  "setValueString Key_startDateValueString t s = s\<lparr>startDateValueString := t\<rparr>"
| "setValueString Key_endDateValueString t s = s\<lparr>endDateValueString := t\<rparr>"

fun setFocus :: "focusKey \<Rightarrow> bool \<Rightarrow> state \<Rightarrow> state" where
  "setFocus Key_isStartDateInputFocused b s = s\<lparr>isStartDateInputFocused := b\<rparr>"
| "setFocus Key_isEndDateInputFocused b s = s\<lparr>isEndDateInputFocused := b\<rparr>"

fun getValue :: "valueKey \<Rightarrow> state \<Rightarrow> moment option" where
  "getValue Key_startDateValue s = startDateValue s"
| "getValue Key_endDateValue s = endDateValue s"

fun getValueString :: "valueStringKey \<Rightarrow> state \<Rightarrow> string option" where
  "getValueString Key_startDateValueString s = startDateValueString s"
| "getValueString Key_endDateValueString s = endDateValueString s"

text \<open>The callbacks of the embedder, as invocations with their payload.\<close>

datatype callback = OnChange dateRange | OnError jsDate

datatype error = TypeError

subsection \<open>Helpers of the component\<close>

definition isNull :: "moment option \<Rightarrow> bool" where
  "isNull v = (case v of None \<Rightarrow> True | Some m \<Rightarrow> nullInput m)"

definition dateIsInRange :: "momentLib \<Rightarrow> props \<Rightarrow> moment option \<Rightarrow> bool" where
  "dateIsInRange lib p v =
     (case v of
        None \<Rightarrow> False
      | Some m \<Rightarrow> isBetween lib m (minDate p) (maxDate p) ''day'' ''[]'')"

definition isDateValidAndInRange :: "momentLib \<Rightarrow> props \<Rightarrow> moment option \<Rightarrow> bool" where
  "isDateValidAndInRange lib p v =
     (case v of
        None \<Rightarrow> False
      | Some m \<Rightarrow> isValid m \<and> dateIsInRange lib p v)"

definition getDateStringForDisplay :: "momentLib \<Rightarrow> props \<Rightarrow> moment option \<Rightarrow> string" where
  "getDateStringForDisplay lib p v =
     (case v of
        None \<Rightarrow> ''''
      | Some m \<Rightarrow>
          if isNull v then ''''
          else if \<not> isValid m then invalidDateMessage p
          else if \<not> dateIsInRange lib p v then outOfRangeMessage p
          else formatMoment lib m (format p))"

text \<open>
  The getters \<open>getFullYear()\<close>, ..., \<open>getMilliseconds()\<close> of a \<open>Date\<close>, read
  together, and the constructor \<open>new Date(year, month, date, hours, minutes, seconds,
  milliseconds)\<close>: it takes a year from 0 to 99 for the year 1900 to 1999.
\<close>

definition getDateFields :: "momentLib \<Rightarrow> jsDate \<Rightarrow> fields option" where
  "getDateFields lib d =
     (case d of
        InvalidDate \<Rightarrow> None
      | Date t \<Rightarrow> Some (localFields lib t))"

definition newDate :: "momentLib \<Rightarrow> fields option \<Rightarrow> jsDate" where
  "newDate lib fo =
     (case fo of
        None \<Rightarrow> InvalidDate
      | Some f \<Rightarrow>
          makeDate lib
            (f\<lparr>year := (if 0 \<le> year f \<and> year f \<le> 99 then 1900 + year f else year f)\<rparr>))"

text \<open>
  \<open>fromMomentToDate\<close> gives \<open>undefined\<close>, here \<open>None\<close>, for \<open>null\<close>, and for a
  moment a new \<open>Date\<close> built from the seven accessors of the moment.
  \<open>fromDateToMoment\<close> hands \<open>null\<close> and a string to \<open>moment(...)\<close> as they are,
  and builds the moment of a \<open>Date\<close> from the array of its seven getters.
\<close>

definition fromMomentToDate :: "momentLib \<Rightarrow> moment option \<Rightarrow> jsDate option" where
  "fromMomentToDate lib v =
     (case v of
        None \<Rightarrow> None
      | Some m \<Rightarrow> Some (newDate lib (momentFields lib m)))"

definition fromDateToMoment :: "momentLib \<Rightarrow> dateArg option \<Rightarrow> moment" where
  "fromDateToMoment lib a =
     (case a of
        None \<Rightarrow> NullInput
      | Some (DateText x) \<Rightarrow> momentOfString lib x
      | Some (DateObject d) \<Rightarrow> momentOfArray lib (getDateFields lib d))"

definition getCurrentDateRange :: "momentLib \<Rightarrow> props \<Rightarrow> state \<Rightarrow> dateRange" where
  "getCurrentDateRange lib p s =
     (let startDate = (if isDateValidAndInRange lib p (startDateValue s)
                       then fromMomentToDate lib (startDateValue s) else None);
          endDate = (if isDateValidAndInRange lib p (endDateValue s)
                     then fromMomentToDate lib (endDateValue s) else None)
      in (startDate, endDate))"

subsection \<open>Constructor and render\<close>

definition getDefaultDateRange :: "momentLib \<Rightarrow> props \<Rightarrow> moment \<times> moment" where
  "getDefaultDateRange lib p =
     (case defaultValue p of
        Some (d0, d1) \<Rightarrow> (fromDateToMoment lib d0, fromDateToMoment lib d1)
      | None \<Rightarrow> (NullInput, NullInput))"

definition initialState :: "momentLib \<Rightarrow> props \<Rightarrow> state" where
  "initialState lib p =
     (let (defaultStartDateValue, defaultEndDateValue) = getDefaultDateRange lib p;
          startValue = (case valueProp p of
                          Some (Some d, _) \<Rightarrow> fromDateToMoment lib (Some d)
                        | _ \<Rightarrow> defaultStartDateValue);
          endValue = (case valueProp p of
                        Some (_, Some d) \<Rightarrow> fromDateToMoment lib (Some d)
                      | _ \<Rightarrow> defaultEndDateValue)
      in \<lparr> isOpen = False,
           isStartDateInputFocused = False,
           startDateValue = Some startValue,
           startDateValueString = None,
           isEndDateInputFocused = False,
           endDateValue = Some endValue,
           endDateValueString = None \<rparr>)"

text \<open>
  What \<open>render\<close> computes from the state: the text of the two inputs, the range handed
  to the \<open>DateRangePicker\<close> and the open flag handed to the \<open>Popover\<close>. (The class
  names and placeholders are markup.)
\<close>

record view =
  startDateString :: "string option"
  endDateString :: "string option"
  pickerValue :: dateRange
  popoverIsOpen :: bool

definition render :: "momentLib \<Rightarrow> props \<Rightarrow> state \<Rightarrow> view" where
  "render lib p s =
     \<lparr> startDateString =
         (if isStartDateInputFocused s then startDateValueString s
          else Some (getDateStringForDisplay lib p (startDateValue s))),
       endDateString =
         (if isEndDateInputFocused s then endDateValueString s
          else Some (getDateStringForDisplay lib p (endDateValue s))),
       pickerValue = getCurrentDateRange lib p s,
       popoverIsOpen = isOpen s \<rparr>"

subsection \<open>Event handlers\<close>

definition handleGenericInputFocus ::
  "momentLib \<Rightarrow> props \<Rightarrow> state \<Rightarrow> moment option \<Rightarrow> valueStringKey \<Rightarrow> focusKey \<Rightarrow> state" where
  "handleGenericInputFocus lib p s v valueStringKey focusStateKey =
     (let valueString = (case v of
                           None \<Rightarrow> ''''
                         | Some m \<Rightarrow> if isNull v then '''' else formatMoment lib m (format p))
      in if openOnFocus p
         then (setFocus focusStateKey True (setValueString valueStringKey (Some valueString) s))
                \<lparr>isOpen := True\<rparr>
         else setFocus focusStateKey True (setValueString valueStringKey (Some valueString) s))"

definition handleStartDateInputFocus :: "momentLib \<Rightarrow> props \<Rightarrow> state \<Rightarrow> state" where
  "handleStartDateInputFocus lib p s =
     handleGenericInputFocus lib p s (startDateValue s)
       Key_startDateValueString Key_isStartDateInputFocused"

definition handleEndDateInputFocus :: "momentLib \<Rightarrow> props \<Rightarrow> state \<Rightarrow> state" where
  "handleEndDateInputFocus lib p s =
     handleGenericInputFocus lib p s (endDateValue s)
       Key_endDateValueString Key_isEndDateInputFocused"

text \<open>
  \<open>handleGenericInputBlur\<close>. A \<open>null\<close> text makes \<open>valueString.length\<close> throw before
  any \<open>setState\<close>. The out-of-sync test reads \<open>this.state.startDateValue\<close> whatever
  the keys are. The three branches that follow the \<open>setState\<close> of the invalid case hold
  comments only (\<open>// TODO: Call onError ...\<close>), so no callback is invoked.
\<close>

definition handleGenericInputBlur ::
  "momentLib \<Rightarrow> props \<Rightarrow> state \<Rightarrow> string option \<Rightarrow> valueKey \<Rightarrow> valueStringKey \<Rightarrow> focusKey
     \<Rightarrow> error + state \<times> callback list" where
  "handleGenericInputBlur lib p s valueString valueKey valueStringKey focusStatusKey =
     (let v = momentOf lib valueString (format p);
          isValueInvalid = \<not> isValid v;
          isValueOutOfRange = \<not> dateIsInRange lib p (Some v)
      in case valueString of
           None \<Rightarrow> Inl TypeError
         | Some text \<Rightarrow>
             (let isValueStringOutOfSync =
                    (text \<noteq> getDateStringForDisplay lib p (startDateValue s));
                  isInputEmpty = (length text = 0);
                  didInputChangeToInvalidState =
                    (\<not> isInputEmpty \<and> isValueStringOutOfSync
                       \<and> (isValueInvalid \<or> isValueOutOfRange))
              in if isInputEmpty then
                   Inr (setFocus focusStatusKey False
                          (setValue valueKey (Some NullInput)
                             (setValueString valueStringKey None s)), [])
                 else if didInputChangeToInvalidState then
                   (if valueProp p = None then
                      Inr (setFocus focusStatusKey False
                             (setValue valueKey (Some v)
                                (setValueString valueStringKey None s)), [])
                    else Inr (setFocus focusStatusKey False s, []))
                 else Inr (setFocus focusStatusKey False s, [])))"

definition handleStartDateInputBlur ::
  "momentLib \<Rightarrow> props \<Rightarrow> state \<Rightarrow> error + state \<times> callback list" where
  "handleStartDateInputBlur lib p s =
     handleGenericInputBlur lib p s (startDateValueString s)
       Key_startDateValue Key_startDateValueString Key_isStartDateInputFocused"

definition handleEndDateInputBlur ::
  "momentLib \<Rightarrow> props \<Rightarrow> state \<Rightarrow> error + state \<times> callback list" where
  "handleEndDateInputBlur lib p s =
     handleGenericInputBlur lib p s (endDateValueString s)
       Key_endDateValue Key_endDateValueString Key_isEndDateInputFocused"

text \<open>
  \<open>handleGenericInputChange\<close>; the text is the \<open>value\<close> of the input element, a
  string. The call of \<open>onChange\<close> is a comment in the source.
\<close>

definition handleGenericInputChange ::
  "momentLib \<Rightarrow> props \<Rightarrow> state \<Rightarrow> string \<Rightarrow> valueKey \<Rightarrow> valueStringKey
     \<Rightarrow> state \<times> callback list" where
  "handleGenericInputChange lib p s valueString valueKey valueStringKey =
     (let v = momentOf lib (Some valueString) (format p)
      in if length valueString = 0 then
           (setValue valueKey None (setValueString valueStringKey (Some '''') s), [])
         else if isValid v \<and> dateIsInRange lib p (Some v) then
           (if valueProp p = None then
              (setValue valueKey (Some v) (setValueString valueStringKey (Some valueString) s), [])
            else (setValueString valueStringKey (Some valueString) s, []))
         else (setValueString valueStringKey (Some valueString) s, []))"

definition handleStartDateInputChange ::
  "momentLib \<Rightarrow> props \<Rightarrow> state \<Rightarrow> string \<Rightarrow> state \<times> callback list" where
  "handleStartDateInputChange lib p s valueString =
     handleGenericInputChange lib p s valueString Key_startDateValue Key_startDateValueString"

definition handleEndDateInputChange ::
  "momentLib \<Rightarrow> props \<Rightarrow> state \<Rightarrow> string \<Rightarrow> state \<times> callback list" where
  "handleEndDateInputChange lib p s valueString =
     handleGenericInputChange lib p s valueString Key_endDateValue Key_endDateValueString"

definition handleClosePopover :: "state \<Rightarrow> state" where
  "handleClosePopover s = s\<lparr>isOpen := False\<rparr>"

text \<open>
  \<open>handleDateRangeChange\<close>. The tests \<open>(startDate) ? ... : ""\<close> ask whether the
  slot is truthy: a \<open>Date\<close> object and a string that is not empty are, \<open>null\<close> and
  the empty string are not.
\<close>

definition truthy :: "dateArg option \<Rightarrow> bool" where
  "truthy a =
     (case a of
        None \<Rightarrow> False
      | Some (DateObject d) \<Rightarrow> True
      | Some (DateText x) \<Rightarrow> x \<noteq> [])"

definition handleDateRangeChange ::
  "momentLib \<Rightarrow> props \<Rightarrow> state \<Rightarrow> dateRangeArg \<Rightarrow> state" where
  "handleDateRangeChange lib p s dateRange =
     (let (startDate, endDate) = dateRange;
          startValue = fromDateToMoment lib startDate;
          endValue = fromDateToMoment lib endDate;
          startString = (if truthy startDate then formatMoment lib startValue (format p) else '''');
          endString = (if truthy endDate then formatMoment lib endValue (format p) else '''')
      in s\<lparr> startDateValue := Some startValue,
            endDateValue := Some endValue,
            startDateValueString := Some startString,
            endDateValueString := Some endString \<rparr>)"

subsection \<open>A small calendar for concrete runs\<close>

text \<open>
  An instance of the library, used where a property is run on a concrete state: a
  host in the time zone UTC with the proleptic Gregorian calendar, instants in
  milliseconds and days of 86400000 ms, and a parser and formatter that know four
  texts.
\<close>

definition daysFromCivil :: "int \<Rightarrow> int \<Rightarrow> int \<Rightarrow> int" where
  "daysFromCivil y m d =
     (let y1 = (if m \<le> 2 then y - 1 else y);
          era = y1 div 400;
          yoe = y1 - era * 400;
          doy = (153 * (if 2 < m then m - 3 else m + 9) + 2) div 5 + d - 1;
          doe = yoe * 365 + yoe div 4 - yoe div 100 + doy
      in era * 146097 + doe - 719468)"

definition civilFromDays :: "int \<Rightarrow> int \<times> int \<times> int" where
  "civilFromDays z =
     (let z1 = z + 719468;
          era = z1 div 146097;
          doe = z1 - era * 146097;
          yoe = (doe - doe div 1460 + doe div 36524 - doe div 146096) div 365;
          doy = doe - (365 * yoe + yoe div 4 - yoe div 100);
          mp = (5 * doy + 2) div 153;
          d = doy - (153 * mp + 2) div 5 + 1;
          m = (if mp < 10 then mp + 3 else mp - 9);
          y = yoe + era * 400
      in (if m \<le> 2 then y + 1 else y, m, d))"

definition utcTime :: "fields \<Rightarrow> int" where
  "utcTime f =
     (daysFromCivil (year f + month f div 12) (month f mod 12 + 1) 1 + (date f - 1)) * 86400000
       + hours f * 3600000 + minutes f * 60000 + seconds f * 1000 + milliseconds f"

definition utcFields :: "int \<Rightarrow> fields" where
  "utcFields t =
     (let r = t mod 86400000;
          (y, m, d) = civilFromDays (t div 86400000)
      in \<lparr> year = y, month = m - 1, date = d,
           hours = r div 3600000,
           minutes = r mod 3600000 div 60000,
           seconds = r mod 60000 div 1000,
           milliseconds = r mod 1000 \<rparr>)"

definition sampleTexts :: "(string \<times> int) list" where
  "sampleTexts =
     [(''2017-01-15'', 1484438400000),
      (''2017-02-01'', 1485907200000),
      (''1800-01-01'', - 5364662400000),
      (''0050-01-01'', - 60589296000000)]"

definition sampleLib :: momentLib where
  "sampleLib =
     \<lparr> parseText = (\<lambda>text fmt. map_of sampleTexts text),
       formatMoment = (\<lambda>m fmt.
          case m of
            Valid t \<Rightarrow> (case find (\<lambda>e. snd e = t) sampleTexts of
                          Some e \<Rightarrow> fst e
                        | None \<Rightarrow> ''unlisted'')
          | NullInput \<Rightarrow> ''Invalid date''
          | Invalid \<Rightarrow> ''Invalid date''),
       isBetween = (\<lambda>m lo hi units inclusivity.
          case (m, lo, hi) of
            (Valid t, Date a, Date b) \<Rightarrow>
               a div 86400000 \<le> t div 86400000 \<and> t div 86400000 \<le> b div 86400000
          | _ \<Rightarrow> False),
       momentOfString = (\<lambda>x.
          if x = [] then NullInput
          else (case map_of sampleTexts x of None \<Rightarrow> Invalid | Some t \<Rightarrow> Valid t)),
       momentOfArray = (\<lambda>fo. case fo of None \<Rightarrow> Invalid | Some f \<Rightarrow> Valid (utcTime f)),
       momentFields = (\<lambda>m. case m of Valid t \<Rightarrow> Some (utcFields t) | _ \<Rightarrow> None),
       localFields = utcFields,
       makeDate = (\<lambda>f. if \<bar>utcTime f\<bar> \<le> 8640000000000000 then Date (utcTime f)
                        else InvalidDate) \<rparr>"

definition sampleProps :: props where
  "sampleProps =
     \<lparr> defaultValue = None,
       format = ''YYYY-MM-DD'',
       invalidDateMessage = ''Invalid date'',
       maxDate = Date 1514678400000,
       minDate = Date 1483228800000,
       openOnFocus = True,
       outOfRangeMessage = ''Out of range'',
       valueProp = None \<rparr>"

definition controlledProps :: props where
  "controlledProps =
     sampleProps\<lparr>valueProp := Some (Some (DateObject (Date 1484438400000)), None)\<rparr>"

text \<open>
  States used below. In \<open>typingEndState\<close> the start field shows a date of the allowed
  range and the end field, focused, holds a half-typed text over a stored date before
  the range.
\<close>

definition typingEndState :: state where
  "typingEndState =
     \<lparr> isOpen = True,
       isStartDateInputFocused = False,
       startDateValue = Some (Valid 1484438400000),
       startDateValueString = None,
       isEndDateInputFocused = True,
       endDateValue = Some (Valid (- 5364662400000)),
       endDateValueString = Some ''2017-02'' \<rparr>"

text \<open>
  The end field was left with an unparseable text before and is focused again: the
  focus handler seeded its text with the library's rendering of the invalid moment.
\<close>

definition endRefocusedState :: state where
  "endRefocusedState =
     \<lparr> isOpen = True,
       isStartDateInputFocused = False,
       startDateValue = Some (Valid 1484438400000),
       startDateValueString = None,
       isEndDateInputFocused = True,
       endDateValue = Some Invalid,
       endDateValueString = Some ''Invalid date'' \<rparr>"

text \<open>The start field focused over a stored date, its text the formatted date.\<close>

definition startFocusedState :: state where
  "startFocusedState =
     \<lparr> isOpen = True,
       isStartDateInputFocused = True,
       startDateValue = Some (Valid 1484438400000),
       startDateValueString = Some ''2017-01-15'',
       isEndDateInputFocused = False,
       endDateValue = Some NullInput,
       endDateValueString = None \<rparr>"

text \<open>The start field focused, the user has typed a text that is no date.\<close>

definition startGarbageState :: state where
  "startGarbageState =
     \<lparr> isOpen = True,
       isStartDateInputFocused = True,
       startDateValue = Some NullInput,
       startDateValueString = Some ''not-a-date'',
       isEndDateInputFocused = False,
       endDateValue = Some NullInput,
       endDateValueString = None \<rparr>"

text \<open>
  The start field shows the invalid-date message (an invalid moment is stored); the
  end field, empty before, is focused and the user has typed the words of that message.
\<close>

definition endTypedMessageState :: state where
  "endTypedMessageState =
     \<lparr> isOpen = True,
       isStartDateInputFocused = False,
       startDateValue = Some Invalid,
       startDateValueString = None,
       isEndDateInputFocused = True,
       endDateValue = Some NullInput,
       endDateValueString = Some ''Invalid date'' \<rparr>"

text \<open>The start field focused over a stored date, its text deleted.\<close>

definition startClearedState :: state where
  "startClearedState =
     \<lparr> isOpen = True,
       isStartDateInputFocused = True,
       startDateValue = Some (Valid 1484438400000),
       startDateValueString = Some [],
       isEndDateInputFocused = False,
       endDateValue = Some NullInput,
       endDateValueString = None \<rparr>"

text \<open>
  Bounds from the year 1 to the year 100, and the state after the user has focused the
  start field of a fresh component and typed a date of the year 50.
\<close>

definition earlyProps :: props where
  "earlyProps =
     sampleProps\<lparr>minDate := Date (- 62135596800000), maxDate := Date (- 59011459200000)\<rparr>"

definition earlyYearState :: state where
  "earlyYearState =
     \<lparr> isOpen = True,
       isStartDateInputFocused = True,
       startDateValue = Some (Valid (- 60589296000000)),
       startDateValueString = Some ''0050-01-01'',
       isEndDateInputFocused = False,
       endDateValue = Some NullInput,
       endDateValueString = None \<rparr>"

section \<open>Properties\<close>

subsection \<open>The handlers, branch by branch\<close>

lemmas sample_defs = sampleLib_def sampleProps_def sampleTexts_def controlledProps_def

lemma getValueString_set [simp]:
  "getValueString sk (setValueString sk t s) = t"
  "getValueString sk (setValue vk v s) = getValueString sk s"
  "getValueString sk (setFocus fk b s) = getValueString sk s"
  by (cases sk; cases vk; cases fk; simp)+

lemma getValue_set [simp]:
  "getValue vk (setValue vk v s) = v"
  "getValue vk (setValueString sk t s) = getValue vk s"
  "getValue vk (setFocus fk b s) = getValue vk s"
  by (cases sk; cases vk; cases fk; simp)+

lemma momentOf_text_not_null: "\<not> nullInput (momentOf lib (Some str) fmt)"
  by (simp add: momentOf_def split: option.split)

lemma change_generic_empty:
  "handleGenericInputChange lib p s [] vk sk =
     (setValue vk None (setValueString sk (Some []) s), [])"
  by (simp add: handleGenericInputChange_def)

lemma change_generic_nonempty:
  assumes "valueString \<noteq> []"
  shows "handleGenericInputChange lib p s valueString vk sk =
     (if isValid (momentOf lib (Some valueString) (format p))
         \<and> dateIsInRange lib p (Some (momentOf lib (Some valueString) (format p)))
         \<and> valueProp p = None
      then setValue vk (Some (momentOf lib (Some valueString) (format p)))
             (setValueString sk (Some valueString) s)
      else setValueString sk (Some valueString) s, [])"
  using assms by (simp add: handleGenericInputChange_def Let_def)

lemma blur_generic_empty:
  "handleGenericInputBlur lib p s (Some []) vk sk fk =
     Inr (setFocus fk False (setValue vk (Some NullInput) (setValueString sk None s)), [])"
  by (simp add: handleGenericInputBlur_def Let_def)

lemma blur_generic_nonempty:
  assumes "str \<noteq> []"
  shows "handleGenericInputBlur lib p s (Some str) vk sk fk =
     Inr (if str \<noteq> getDateStringForDisplay lib p (startDateValue s)
             \<and> (\<not> isValid (momentOf lib (Some str) (format p))
                  \<or> \<not> dateIsInRange lib p (Some (momentOf lib (Some str) (format p))))
             \<and> valueProp p = None
          then setFocus fk False
                 (setValue vk (Some (momentOf lib (Some str) (format p)))
                    (setValueString sk None s))
          else setFocus fk False s, [])"
  using assms by (simp add: handleGenericInputBlur_def Let_def)

text \<open>No branch of the two typing handlers invokes a callback of the embedder.\<close>

lemma blur_invokes_no_callback:
  "handleGenericInputBlur lib p s t vk sk fk = Inr (s', cbs) \<Longrightarrow> cbs = []"
  by (auto simp: handleGenericInputBlur_def Let_def split: option.splits if_splits)

lemma change_invokes_no_callback:
  "snd (handleGenericInputChange lib p s t vk sk) = []"
  by (simp add: handleGenericInputChange_def Let_def)

text \<open>
  With a value prop supplied, a change to a text that is not empty leaves both
  stored moments as they are.
\<close>

lemma controlled_change_nonempty_keeps_values:
  assumes "valueProp p \<noteq> None" and "str \<noteq> []"
  shows "startDateValue (fst (handleStartDateInputChange lib p s str)) = startDateValue s"
    and "endDateValue (fst (handleStartDateInputChange lib p s str)) = endDateValue s"
    and "startDateValue (fst (handleEndDateInputChange lib p s str)) = startDateValue s"
    and "endDateValue (fst (handleEndDateInputChange lib p s str)) = endDateValue s"
  using assms
  by (auto simp: handleStartDateInputChange_def handleEndDateInputChange_def
      change_generic_nonempty)

text \<open>
  The blur of the start field, where the out-of-sync test reads the field's own
  stored moment: a changed text that is no date of the range is committed when no
  value prop is supplied, and the field then shows one of the two messages.
\<close>

lemma start_blur_invalid_commits:
  assumes "startDateValueString s = Some str" and "str \<noteq> []"
    and "str \<noteq> getDateStringForDisplay lib p (startDateValue s)"
    and "\<not> isValid (momentOf lib (Some str) (format p))
         \<or> \<not> dateIsInRange lib p (Some (momentOf lib (Some str) (format p)))"
  shows "handleStartDateInputBlur lib p s =
     Inr (if valueProp p = None
          then s\<lparr>startDateValueString := None,
                 startDateValue := Some (momentOf lib (Some str) (format p)),
                 isStartDateInputFocused := False\<rparr>
          else s\<lparr>isStartDateInputFocused := False\<rparr>, [])"
    and "getDateStringForDisplay lib p (Some (momentOf lib (Some str) (format p))) =
           (if isValid (momentOf lib (Some str) (format p))
            then outOfRangeMessage p else invalidDateMessage p)"
proof -
  show "handleStartDateInputBlur lib p s =
     Inr (if valueProp p = None
          then s\<lparr>startDateValueString := None,
                 startDateValue := Some (momentOf lib (Some str) (format p)),
                 isStartDateInputFocused := False\<rparr>
          else s\<lparr>isStartDateInputFocused := False\<rparr>, [])"
    using assms by (simp add: handleStartDateInputBlur_def blur_generic_nonempty)
  show "getDateStringForDisplay lib p (Some (momentOf lib (Some str) (format p))) =
           (if isValid (momentOf lib (Some str) (format p))
            then outOfRangeMessage p else invalidDateMessage p)"
    using assms(4) momentOf_text_not_null [of lib str "format p"]
    by (auto simp: getDateStringForDisplay_def isNull_def)
qed

subsection \<open>What the two inputs show\<close>

text \<open>
  Claim C1. The text shown for an endpoint is its raw text when the endpoint is
  focused. When it is not focused, the text depends on the stored moment and the props
  only: empty when the moment is absent (\<open>null\<close> or the null-input moment), the
  invalid-date message when the moment is invalid, the out-of-range message when it is
  valid and \<open>isBetween\<close> the two bounds (by day, both ends included) fails, and the
  moment formatted under the format pattern otherwise.
\<close>

theorem displayed_text_of_endpoint:
  "startDateString (render lib p s) =
     (if isStartDateInputFocused s then startDateValueString s
      else Some (case startDateValue s of
                   None \<Rightarrow> ''''
                 | Some NullInput \<Rightarrow> ''''
                 | Some Invalid \<Rightarrow> invalidDateMessage p
                 | Some (Valid t) \<Rightarrow>
                     if isBetween lib (Valid t) (minDate p) (maxDate p) ''day'' ''[]''
                     then formatMoment lib (Valid t) (format p)
                     else outOfRangeMessage p))
   \<and> endDateString (render lib p s) =
     (if isEndDateInputFocused s then endDateValueString s
      else Some (case endDateValue s of
                   None \<Rightarrow> ''''
                 | Some NullInput \<Rightarrow> ''''
                 | Some Invalid \<Rightarrow> invalidDateMessage p
                 | Some (Valid t) \<Rightarrow>
                     if isBetween lib (Valid t) (minDate p) (maxDate p) ''day'' ''[]''
                     then formatMoment lib (Valid t) (format p)
                     else outOfRangeMessage p))"
  by (simp add: render_def getDateStringForDisplay_def isNull_def dateIsInRange_def
      split: option.split moment.split)

text \<open>
  On \<open>typingEndState\<close>: the unfocused start field shows its formatted date, the focused
  end field its half-typed text; once the end field loses the focus flag it shows the
  out-of-range message of its stored date.
\<close>

theorem displayed_text_of_endpoint_witness:
  "startDateString (render sampleLib sampleProps typingEndState) = Some ''2017-01-15''
   \<and> endDateString (render sampleLib sampleProps typingEndState) = Some ''2017-02''
   \<and> endDateString (render sampleLib sampleProps
         (typingEndState\<lparr>isEndDateInputFocused := False\<rparr>)) = Some ''Out of range''"
  using displayed_text_of_endpoint [of sampleLib sampleProps typingEndState]
    displayed_text_of_endpoint [of sampleLib sampleProps
      "typingEndState\<lparr>isEndDateInputFocused := False\<rparr>"]
  by (simp add: typingEndState_def sample_defs)

subsection \<open>Typing\<close>

text \<open>
  Claim C2. A change of either field to a text that is not empty: when the text parses
  and the parsed moment is in range, the raw text becomes the typed text and, with no
  value prop supplied, the stored moment becomes the parsed one in the same transition
  (nothing else changes); when the text does not parse or the parsed moment is out of
  range, the raw text alone is updated.
\<close>

theorem text_change_nonempty:
  assumes "str \<noteq> []"
  shows
   "(isValid (momentOf lib (Some str) (format p))
       \<and> dateIsInRange lib p (Some (momentOf lib (Some str) (format p)))
     \<longrightarrow> startDateValueString (fst (handleStartDateInputChange lib p s str)) = Some str
         \<and> endDateValueString (fst (handleEndDateInputChange lib p s str)) = Some str
         \<and> (valueProp p = None
            \<longrightarrow> handleStartDateInputChange lib p s str =
                  (s\<lparr>startDateValueString := Some str,
                     startDateValue := Some (momentOf lib (Some str) (format p))\<rparr>, [])
              \<and> handleEndDateInputChange lib p s str =
                  (s\<lparr>endDateValueString := Some str,
                     endDateValue := Some (momentOf lib (Some str) (format p))\<rparr>, [])))
    \<and> (\<not> (isValid (momentOf lib (Some str) (format p))
            \<and> dateIsInRange lib p (Some (momentOf lib (Some str) (format p))))
     \<longrightarrow> handleStartDateInputChange lib p s str = (s\<lparr>startDateValueString := Some str\<rparr>, [])
         \<and> handleEndDateInputChange lib p s str = (s\<lparr>endDateValueString := Some str\<rparr>, []))"
  using assms
  by (simp add: handleStartDateInputChange_def handleEndDateInputChange_def
      change_generic_nonempty)

text \<open>
  A date of the range typed into the end field is stored at once; a date before the
  range typed into the start field changes the raw text only.
\<close>

theorem text_change_nonempty_witness:
  "''2017-02-01'' \<noteq> []
   \<and> isValid (momentOf sampleLib (Some ''2017-02-01'') (format sampleProps))
   \<and> dateIsInRange sampleLib sampleProps
        (Some (momentOf sampleLib (Some ''2017-02-01'') (format sampleProps)))
   \<and> valueProp sampleProps = None
   \<and> handleEndDateInputChange sampleLib sampleProps typingEndState ''2017-02-01'' =
        (typingEndState\<lparr>endDateValueString := Some ''2017-02-01'',
                        endDateValue := Some (Valid 1485907200000)\<rparr>, [])
   \<and> ''1800-01-01'' \<noteq> []
   \<and> \<not> dateIsInRange sampleLib sampleProps
        (Some (momentOf sampleLib (Some ''1800-01-01'') (format sampleProps)))
   \<and> handleStartDateInputChange sampleLib sampleProps typingEndState ''1800-01-01'' =
        (typingEndState\<lparr>startDateValueString := Some ''1800-01-01''\<rparr>, [])"
  using text_change_nonempty [of "''2017-02-01''" sampleLib sampleProps typingEndState]
    text_change_nonempty [of "''1800-01-01''" sampleLib sampleProps typingEndState]
  by (simp add: sample_defs momentOf_def dateIsInRange_def)

text \<open>
  Claim C4, at the input where the code leaves it. A value prop is supplied, the start
  field holds a date, and the user deletes the text: the change handler sets the stored
  moment to \<open>null\<close>. (For a text that is not empty the stored moments are kept:
  \<open>controlled_change_nonempty_keeps_values\<close>.)
\<close>

theorem controlled_empty_change_clears_value:
  "valueProp controlledProps \<noteq> None
   \<and> startDateValue startFocusedState = Some (Valid 1484438400000)
   \<and> handleStartDateInputChange sampleLib controlledProps startFocusedState [] =
        (startFocusedState\<lparr>startDateValueString := Some [], startDateValue := None\<rparr>, [])"
  by (simp add: handleStartDateInputChange_def change_generic_empty startFocusedState_def
      sample_defs)

subsection \<open>Leaving a field\<close>

text \<open>
  Claim C3. The blur of the end field compares the end field's text with the display
  string of the start endpoint's stored moment: for a text that is not empty, the
  invalid-state branch is taken exactly when the text differs from that string and the
  parsed moment is invalid or out of range. The end endpoint's own stored moment plays
  no part in the decision.
\<close>

theorem end_blur_compares_with_start_display:
  assumes "endDateValueString s = Some str" and "str \<noteq> []"
  shows "handleEndDateInputBlur lib p s =
     Inr (if str \<noteq> getDateStringForDisplay lib p (startDateValue s)
             \<and> (\<not> isValid (momentOf lib (Some str) (format p))
                  \<or> \<not> dateIsInRange lib p (Some (momentOf lib (Some str) (format p))))
          then (if valueProp p = None
                then s\<lparr>endDateValueString := None,
                       endDateValue := Some (momentOf lib (Some str) (format p)),
                       isEndDateInputFocused := False\<rparr>
                else s\<lparr>isEndDateInputFocused := False\<rparr>)
          else s\<lparr>isEndDateInputFocused := False\<rparr>, [])"
  using assms by (simp add: handleEndDateInputBlur_def blur_generic_nonempty)

text \<open>
  On \<open>endRefocusedState\<close> the end field's text is the end endpoint's own display
  string, untouched by the user, and differs from the start endpoint's: the blur takes
  the invalid-state branch all the same.
\<close>

theorem end_blur_compares_with_start_display_witness:
  "endDateValueString endRefocusedState = Some ''Invalid date''
   \<and> ''Invalid date'' \<noteq> []
   \<and> ''Invalid date'' =
        getDateStringForDisplay sampleLib sampleProps (endDateValue endRefocusedState)
   \<and> ''Invalid date'' \<noteq>
        getDateStringForDisplay sampleLib sampleProps (startDateValue endRefocusedState)
   \<and> handleEndDateInputBlur sampleLib sampleProps endRefocusedState =
       Inr (endRefocusedState\<lparr>endDateValueString := None, endDateValue := Some Invalid,
                              isEndDateInputFocused := False\<rparr>, [])"
  using end_blur_compares_with_start_display
          [of endRefocusedState "''Invalid date''" sampleLib sampleProps]
  by (simp add: endRefocusedState_def sample_defs momentOf_def dateIsInRange_def
      getDateStringForDisplay_def isNull_def)

text \<open>
  Claim C5, at an input where the code leaves it. No value prop is supplied, the start
  field is focused and holds a text that is no date; the text differs from the field's
  display string. The blur commits the invalid moment and invokes no callback at all.
\<close>

theorem blur_unparseable_invokes_no_callback:
  "startDateValueString startGarbageState = Some ''not-a-date''
   \<and> ''not-a-date'' \<noteq>
        getDateStringForDisplay sampleLib sampleProps (startDateValue startGarbageState)
   \<and> \<not> isValid (momentOf sampleLib (Some ''not-a-date'') (format sampleProps))
   \<and> handleStartDateInputBlur sampleLib sampleProps startGarbageState =
        Inr (startGarbageState\<lparr>startDateValueString := None, startDateValue := Some Invalid,
                               isStartDateInputFocused := False\<rparr>, [])"
  by (simp add: handleStartDateInputBlur_def blur_generic_nonempty startGarbageState_def
      sample_defs momentOf_def dateIsInRange_def getDateStringForDisplay_def isNull_def)

text \<open>
  Claim C6, at an input where the code leaves it. No value prop is supplied; the end
  field, whose own display string is empty, is focused and holds a text that is no
  date, the very words the start field shows. The blur of the end field clears the focus
  flag only: the stored moment and the raw text stay, and the field shows the empty
  string afterwards, not a message.
\<close>

theorem end_blur_changed_text_not_committed:
  "valueProp sampleProps = None
   \<and> endDateValueString endTypedMessageState = Some ''Invalid date''
   \<and> getDateStringForDisplay sampleLib sampleProps (endDateValue endTypedMessageState) = []
   \<and> \<not> isValid (momentOf sampleLib (Some ''Invalid date'') (format sampleProps))
   \<and> handleEndDateInputBlur sampleLib sampleProps endTypedMessageState =
        Inr (endTypedMessageState\<lparr>isEndDateInputFocused := False\<rparr>, [])
   \<and> endDateString (render sampleLib sampleProps
        (endTypedMessageState\<lparr>isEndDateInputFocused := False\<rparr>)) = Some []"
  by (simp add: handleEndDateInputBlur_def blur_generic_nonempty endTypedMessageState_def
      sample_defs momentOf_def dateIsInRange_def getDateStringForDisplay_def isNull_def
      render_def)

text \<open>
  Claim C7. The blur of a field whose text is empty stores the null-input moment, which
  counts as absent and is shown as the empty string, clears the raw text and the focus
  flag, and invokes no callback; the props, and so the presence of a value prop, play no
  part.
\<close>

theorem blur_empty_clears_value:
  "(startDateValueString s = Some []
      \<longrightarrow> handleStartDateInputBlur lib p s =
            Inr (s\<lparr>startDateValueString := None, startDateValue := Some NullInput,
                   isStartDateInputFocused := False\<rparr>, []))
   \<and> (endDateValueString s = Some []
      \<longrightarrow> handleEndDateInputBlur lib p s =
            Inr (s\<lparr>endDateValueString := None, endDateValue := Some NullInput,
                   isEndDateInputFocused := False\<rparr>, []))
   \<and> isNull (Some NullInput)
   \<and> getDateStringForDisplay lib p (Some NullInput) = []"
  by (simp add: handleStartDateInputBlur_def handleEndDateInputBlur_def blur_generic_empty
      isNull_def getDateStringForDisplay_def)

text \<open>The same result with and without a value prop.\<close>

theorem blur_empty_clears_value_witness:
  "startDateValueString startClearedState = Some []
   \<and> handleStartDateInputBlur sampleLib sampleProps startClearedState =
        Inr (startClearedState\<lparr>startDateValueString := None, startDateValue := Some NullInput,
                               isStartDateInputFocused := False\<rparr>, [])
   \<and> handleStartDateInputBlur sampleLib controlledProps startClearedState =
        Inr (startClearedState\<lparr>startDateValueString := None, startDateValue := Some NullInput,
                               isStartDateInputFocused := False\<rparr>, [])
   \<and> endDateValueString (startClearedState\<lparr>endDateValueString := Some []\<rparr>) = Some []
   \<and> handleEndDateInputBlur sampleLib sampleProps
        (startClearedState\<lparr>endDateValueString := Some []\<rparr>) =
        Inr (startClearedState\<lparr>endDateValueString := None, endDateValue := Some NullInput,
                               isEndDateInputFocused := False\<rparr>, [])"
  using blur_empty_clears_value [of startClearedState sampleLib sampleProps]
    blur_empty_clears_value [of startClearedState sampleLib controlledProps]
    blur_empty_clears_value [of "startClearedState\<lparr>endDateValueString := Some []\<rparr>"
      sampleLib sampleProps]
  by (simp add: startClearedState_def)

subsection \<open>The empty text\<close>

text \<open>
  Claim C8. The handlers treat a text as empty exactly when its length is zero. The
  change handler gives the result of its empty branch (stored moment \<open>null\<close>, raw text
  empty) if and only if the typed text has length zero; the blur of a field gives the
  result of its empty branch (null-input moment stored, raw text cleared, focus flag
  cleared) if and only if the field's text has length zero, so the empty text is never
  committed as an invalid moment. A text that is not empty parses to an invalid moment
  or to a valid one, never to the null-input moment.
\<close>

theorem empty_text_iff_zero_length:
  "((handleGenericInputChange lib p s str vk sk =
       (setValue vk None (setValueString sk (Some []) s), [])) = (length str = 0))
   \<and> (startDateValueString s = Some str \<longrightarrow>
        ((handleStartDateInputBlur lib p s =
           Inr (s\<lparr>startDateValueString := None, startDateValue := Some NullInput,
                  isStartDateInputFocused := False\<rparr>, [])) = (length str = 0)))
   \<and> (endDateValueString s = Some str \<longrightarrow>
        ((handleEndDateInputBlur lib p s =
           Inr (s\<lparr>endDateValueString := None, endDateValue := Some NullInput,
                  isEndDateInputFocused := False\<rparr>, [])) = (length str = 0)))
   \<and> (length str \<noteq> 0 \<longrightarrow>
        momentOf lib (Some str) (format p) = Invalid
        \<or> (\<exists>t. momentOf lib (Some str) (format p) = Valid t))"
proof (intro conjI impI)
  show "(handleGenericInputChange lib p s str vk sk =
       (setValue vk None (setValueString sk (Some []) s), [])) = (length str = 0)"
  proof (cases "str = []")
    case True
    then show ?thesis by (simp add: change_generic_empty)
  next
    case False
    have "getValueString sk (fst (handleGenericInputChange lib p s str vk sk)) = Some str"
      using False by (simp add: change_generic_nonempty)
    moreover have "getValueString sk (fst (setValue vk None (setValueString sk (Some []) s),
        [] :: callback list)) = Some []"
      by simp
    ultimately show ?thesis using False by auto
  qed
next
  assume h: "startDateValueString s = Some str"
  show "(handleStartDateInputBlur lib p s =
           Inr (s\<lparr>startDateValueString := None, startDateValue := Some NullInput,
                  isStartDateInputFocused := False\<rparr>, [])) = (length str = 0)"
  proof (cases "str = []")
    case True
    then show ?thesis using h by (simp add: handleStartDateInputBlur_def blur_generic_empty)
  next
    case False
    let ?r = "handleStartDateInputBlur lib p s"
    have "?r = Inr (s\<lparr>startDateValueString := None,
                      startDateValue := Some (momentOf lib (Some str) (format p)),
                      isStartDateInputFocused := False\<rparr>, [])
          \<or> ?r = Inr (s\<lparr>isStartDateInputFocused := False\<rparr>, [])"
      using False h by (simp add: handleStartDateInputBlur_def blur_generic_nonempty)
    then show ?thesis
    proof
      assume a: "?r = Inr (s\<lparr>startDateValueString := None,
                      startDateValue := Some (momentOf lib (Some str) (format p)),
                      isStartDateInputFocused := False\<rparr>, [])"
      have "momentOf lib (Some str) (format p) \<noteq> NullInput"
        using momentOf_text_not_null [of lib str "format p"] by auto
      then have "startDateValue (s\<lparr>startDateValueString := None,
                      startDateValue := Some (momentOf lib (Some str) (format p)),
                      isStartDateInputFocused := False\<rparr>) \<noteq> Some NullInput"
        by simp
      then show ?thesis using a False
        by (auto dest: arg_cong [where f = startDateValue])
    next
      assume a: "?r = Inr (s\<lparr>isStartDateInputFocused := False\<rparr>, [])"
      show ?thesis using a False h
        by (auto dest: arg_cong [where f = startDateValueString])
    qed
  qed
next
  assume h: "endDateValueString s = Some str"
  show "(handleEndDateInputBlur lib p s =
           Inr (s\<lparr>endDateValueString := None, endDateValue := Some NullInput,
                  isEndDateInputFocused := False\<rparr>, [])) = (length str = 0)"
  proof (cases "str = []")
    case True
    then show ?thesis using h by (simp add: handleEndDateInputBlur_def blur_generic_empty)
  next
    case False
    let ?r = "handleEndDateInputBlur lib p s"
    have "?r = Inr (s\<lparr>endDateValueString := None,
                      endDateValue := Some (momentOf lib (Some str) (format p)),
                      isEndDateInputFocused := False\<rparr>, [])
          \<or> ?r = Inr (s\<lparr>isEndDateInputFocused := False\<rparr>, [])"
      using False h by (simp add: handleEndDateInputBlur_def blur_generic_nonempty)
    then show ?thesis
    proof
      assume a: "?r = Inr (s\<lparr>endDateValueString := None,
                      endDateValue := Some (momentOf lib (Some str) (format p)),
                      isEndDateInputFocused := False\<rparr>, [])"
      have "momentOf lib (Some str) (format p) \<noteq> NullInput"
        using momentOf_text_not_null [of lib str "format p"] by auto
      then have "endDateValue (s\<lparr>endDateValueString := None,
                      endDateValue := Some (momentOf lib (Some str) (format p)),
                      isEndDateInputFocused := False\<rparr>) \<noteq> Some NullInput"
        by simp
      then show ?thesis using a False
        by (auto dest: arg_cong [where f = endDateValue])
    next
      assume a: "?r = Inr (s\<lparr>isEndDateInputFocused := False\<rparr>, [])"
      show ?thesis using a False h
        by (auto dest: arg_cong [where f = endDateValueString])
    qed
  qed
next
  assume "length str \<noteq> 0"
  show "momentOf lib (Some str) (format p) = Invalid
        \<or> (\<exists>t. momentOf lib (Some str) (format p) = Valid t)"
    by (simp add: momentOf_def split: option.split)
qed

text \<open>
  The empty text does not parse in the sample library either, and still takes the
  empty branch of both handlers; the text \<open>not-a-date\<close> takes neither.
\<close>

theorem empty_text_iff_zero_length_witness:
  "parseText sampleLib [] (format sampleProps) = None
   \<and> handleGenericInputChange sampleLib sampleProps startClearedState []
        Key_startDateValue Key_startDateValueString =
        (startClearedState\<lparr>startDateValueString := Some [], startDateValue := None\<rparr>, [])
   \<and> startDateValueString startClearedState = Some []
   \<and> handleStartDateInputBlur sampleLib sampleProps startClearedState =
        Inr (startClearedState\<lparr>startDateValueString := None, startDateValue := Some NullInput,
                               isStartDateInputFocused := False\<rparr>, [])
   \<and> handleGenericInputChange sampleLib sampleProps startGarbageState ''not-a-date''
        Key_startDateValue Key_startDateValueString \<noteq>
        (startGarbageState\<lparr>startDateValueString := Some [], startDateValue := None\<rparr>, [])
   \<and> startDateValueString startGarbageState = Some ''not-a-date''
   \<and> handleStartDateInputBlur sampleLib sampleProps startGarbageState \<noteq>
        Inr (startGarbageState\<lparr>startDateValueString := None, startDateValue := Some NullInput,
                               isStartDateInputFocused := False\<rparr>, [])
   \<and> momentOf sampleLib (Some ''not-a-date'') (format sampleProps) = Invalid"
  using empty_text_iff_zero_length [of sampleLib sampleProps startClearedState "[]"
          Key_startDateValue Key_startDateValueString]
    empty_text_iff_zero_length [of sampleLib sampleProps startGarbageState "''not-a-date''"
          Key_startDateValue Key_startDateValueString]
  by (simp add: startClearedState_def startGarbageState_def sample_defs momentOf_def)

subsection \<open>The calendar\<close>

text \<open>
  Claim C9. A pick of the range \<open>(a1, a2)\<close> in the calendar replaces, in one
  transition, both stored moments by the moments of the picked slots and both raw texts
  by the texts of the new moments: the new moment formatted under the format pattern
  for a picked date, the empty string for \<open>null\<close>. The moment of a slot is the
  null-input moment for \<open>null\<close> (absent), the moment built from the array of the
  seven local fields of a picked \<open>Date\<close>, and \<open>moment(string)\<close> for a string. The open
  flag of the popover and the focus flags stay as they are.
\<close>

theorem calendar_pick_overwrites_both:
  "handleDateRangeChange lib p s (a1, a2) =
     s\<lparr> startDateValue := Some (fromDateToMoment lib a1),
        endDateValue := Some (fromDateToMoment lib a2),
        startDateValueString :=
          Some (if a1 = None \<or> a1 = Some (DateText []) then []
                else formatMoment lib (fromDateToMoment lib a1) (format p)),
        endDateValueString :=
          Some (if a2 = None \<or> a2 = Some (DateText []) then []
                else formatMoment lib (fromDateToMoment lib a2) (format p)) \<rparr>
   \<and> fromDateToMoment lib None = NullInput
   \<and> isNull (Some (fromDateToMoment lib None))
   \<and> fromDateToMoment lib (Some (DateObject (Date t))) =
        momentOfArray lib (Some (localFields lib t))
   \<and> fromDateToMoment lib (Some (DateObject InvalidDate)) = momentOfArray lib None
   \<and> fromDateToMoment lib (Some (DateText x)) = momentOfString lib x
   \<and> isOpen (handleDateRangeChange lib p s (a1, a2)) = isOpen s"
proof -
  have truthy_iff: "truthy a \<longleftrightarrow> \<not> (a = None \<or> a = Some (DateText []))" for a
    by (simp add: truthy_def split: option.split dateArg.split)
  have pick: "handleDateRangeChange lib p s (a1, a2) =
     s\<lparr> startDateValue := Some (fromDateToMoment lib a1),
        endDateValue := Some (fromDateToMoment lib a2),
        startDateValueString :=
          Some (if a1 = None \<or> a1 = Some (DateText []) then []
                else formatMoment lib (fromDateToMoment lib a1) (format p)),
        endDateValueString :=
          Some (if a2 = None \<or> a2 = Some (DateText []) then []
                else formatMoment lib (fromDateToMoment lib a2) (format p)) \<rparr>"
    by (simp add: handleDateRangeChange_def Let_def truthy_iff)
  have conv: "fromDateToMoment lib None = NullInput"
    "fromDateToMoment lib (Some (DateObject (Date t))) =
        momentOfArray lib (Some (localFields lib t))"
    "fromDateToMoment lib (Some (DateObject InvalidDate)) = momentOfArray lib None"
    "fromDateToMoment lib (Some (DateText x)) = momentOfString lib x"
    by (simp_all add: fromDateToMoment_def getDateFields_def)
  have absent: "isNull (Some (fromDateToMoment lib None))"
    by (simp add: conv isNull_def)
  have flag: "isOpen (handleDateRangeChange lib p s (a1, a2)) = isOpen s"
    by (simp add: pick)
  from pick conv absent flag show ?thesis by simp
qed

text \<open>
  Two picks on \<open>typingEndState\<close> in the sample library: a start date alone, and a
  start and an end date. The stored moments follow the picked dates.
\<close>

theorem calendar_pick_overwrites_both_witness:
  "handleDateRangeChange sampleLib sampleProps typingEndState
      (Some (DateObject (Date 1485907200000)), None) =
     typingEndState\<lparr> startDateValue := Some (Valid 1485907200000),
                     endDateValue := Some NullInput,
                     startDateValueString := Some ''2017-02-01'',
                     endDateValueString := Some [] \<rparr>
   \<and> handleDateRangeChange sampleLib sampleProps typingEndState
      (Some (DateObject (Date 1484438400000)), Some (DateObject (Date 1485907200000))) =
     typingEndState\<lparr> startDateValue := Some (Valid 1484438400000),
                     endDateValue := Some (Valid 1485907200000),
                     startDateValueString := Some ''2017-01-15'',
                     endDateValueString := Some ''2017-02-01'' \<rparr>
   \<and> isOpen (handleDateRangeChange sampleLib sampleProps typingEndState
        (Some (DateObject (Date 1485907200000)), None)) = True"
proof -
  have early: "momentOfArray sampleLib (Some (localFields sampleLib 1484438400000)) =
      Valid 1484438400000"
    by code_simp
  have late: "momentOfArray sampleLib (Some (localFields sampleLib 1485907200000)) =
      Valid 1485907200000"
    by code_simp
  have texts: "formatMoment sampleLib (Valid 1484438400000) (format sampleProps) = ''2017-01-15''"
    "formatMoment sampleLib (Valid 1485907200000) (format sampleProps) = ''2017-02-01''"
    by (simp_all add: sample_defs)
  have flag: "isOpen typingEndState = True"
    by (simp add: typingEndState_def)
  show ?thesis
    using calendar_pick_overwrites_both [of sampleLib sampleProps typingEndState
            "Some (DateObject (Date 1485907200000))" None 1485907200000 "[]"]
          calendar_pick_overwrites_both [of sampleLib sampleProps typingEndState
            "Some (DateObject (Date 1484438400000))" "Some (DateObject (Date 1485907200000))"
            1484438400000 "[]"]
    by (simp add: early late texts flag)
qed

text \<open>
  The range handed to the calendar: each endpoint is \<open>null\<close>, or it is the \<open>Date\<close>
  that \<open>new Date(...)\<close> builds from the fields of the stored moment of that endpoint,
  and this stored moment is valid and in range. When the year of the stored moment is
  not one of 0 to 99, the constructor takes the fields as they are.
\<close>

lemma picker_range_of_stored_moments:
  "fst (getCurrentDateRange lib p s) = None
     \<or> (\<exists>m. startDateValue s = Some m \<and> isValid m \<and> dateIsInRange lib p (Some m)
            \<and> fst (getCurrentDateRange lib p s) = Some (newDate lib (momentFields lib m)))"
  "snd (getCurrentDateRange lib p s) = None
     \<or> (\<exists>m. endDateValue s = Some m \<and> isValid m \<and> dateIsInRange lib p (Some m)
            \<and> snd (getCurrentDateRange lib p s) = Some (newDate lib (momentFields lib m)))"
  by (auto simp: getCurrentDateRange_def isDateValidAndInRange_def fromMomentToDate_def
      split: option.split)

lemma newDate_later_year:
  "year f < 0 \<or> 99 < year f \<Longrightarrow> newDate lib (Some f) = makeDate lib f"
  by (auto simp: newDate_def)

text \<open>
  Claim C10, at an input where the code leaves it. The bounds are the years 1 and 100;
  the user focuses the start field of a fresh component and types a date of the year
  50, which is stored, being valid and in range. The range handed to the calendar then
  has the first day of 1950 as its start: \<open>new Date(50, 0, 1, ...)\<close> is a date of the
  year 1950. That date, taken back by \<open>fromDateToMoment\<close>, fails the component's own
  range test.
\<close>

theorem picker_handed_date_outside_bounds:
  "handleStartDateInputChange sampleLib earlyProps
      (handleStartDateInputFocus sampleLib earlyProps (initialState sampleLib earlyProps))
      ''0050-01-01'' = (earlyYearState, [])
   \<and> isDateValidAndInRange sampleLib earlyProps (startDateValue earlyYearState)
   \<and> pickerValue (render sampleLib earlyProps earlyYearState) =
        (Some (Date (- 631152000000)), None)
   \<and> fromDateToMoment sampleLib (Some (DateObject (Date (- 631152000000)))) =
        Valid (- 631152000000)
   \<and> \<not> dateIsInRange sampleLib earlyProps (Some (Valid (- 631152000000)))
   \<and> maxDate earlyProps = Date (- 59011459200000)"
proof -
  have typed: "handleStartDateInputChange sampleLib earlyProps
      (handleStartDateInputFocus sampleLib earlyProps (initialState sampleLib earlyProps))
      ''0050-01-01'' = (earlyYearState, [])"
    by (simp add: handleStartDateInputChange_def change_generic_nonempty
        handleStartDateInputFocus_def handleGenericInputFocus_def initialState_def
        getDefaultDateRange_def isNull_def momentOf_def dateIsInRange_def
        earlyProps_def earlyYearState_def sample_defs)
  have stored: "isDateValidAndInRange sampleLib earlyProps (startDateValue earlyYearState)"
    by (simp add: isDateValidAndInRange_def dateIsInRange_def earlyProps_def
        earlyYearState_def sample_defs)
  have fields50: "momentFields sampleLib (Valid (- 60589296000000)) =
      Some \<lparr>year = 50, month = 0, date = 1, hours = 0, minutes = 0, seconds = 0,
            milliseconds = 0\<rparr>"
    by code_simp
  have built: "newDate sampleLib
      (Some \<lparr>year = 50, month = 0, date = 1, hours = 0, minutes = 0, seconds = 0,
             milliseconds = 0\<rparr>) = Date (- 631152000000)"
    by code_simp
  have handed: "pickerValue (render sampleLib earlyProps earlyYearState) =
        (Some (Date (- 631152000000)), None)"
  proof -
    have "fromMomentToDate sampleLib (Some (Valid (- 60589296000000))) =
        Some (Date (- 631152000000))"
      by (simp add: fromMomentToDate_def fields50 built)
    moreover have "startDateValue earlyYearState = Some (Valid (- 60589296000000))"
      "endDateValue earlyYearState = Some NullInput"
      by (simp_all add: earlyYearState_def)
    moreover have "\<not> isDateValidAndInRange sampleLib earlyProps (Some NullInput)"
      by (simp add: isDateValidAndInRange_def)
    ultimately show ?thesis
      using stored by (simp add: render_def getCurrentDateRange_def)
  qed
  have retaken: "fromDateToMoment sampleLib (Some (DateObject (Date (- 631152000000)))) =
        Valid (- 631152000000)"
    by code_simp
  have outside: "\<not> dateIsInRange sampleLib earlyProps (Some (Valid (- 631152000000)))"
    by (simp add: dateIsInRange_def earlyProps_def sample_defs)
  have bound: "maxDate earlyProps = Date (- 59011459200000)"
    by (simp add: earlyProps_def sample_defs)
  from typed stored handed retaken outside bound show ?thesis by simp
qed

end
